theory Spec2Isabelle
  imports Complex_Main
begin

section \<open>The business analytics dashboard (app.py)\<close>

text \<open>
  The dashboard computes three summary numbers and two chart descriptions from a
  twelve-row table. The table is a pandas DataFrame; here it is the list of its rows.
  Its numeric columns are pandas columns of 64-bit signed integers: an entry is an
  \<open>int\<close> for which \<open>int64\<close> holds, and where the code adds or subtracts such
  integers the result wraps around, written \<open>wrap64\<close>. The results of \<open>mean\<close> and of
  the growth formula are floating-point numbers: they are idealised as exact reals,
  with extra values for the two infinities and for NaN. Rounding is not modelled.
  Exceptions are values of type \<open>error\<close>, returned on the left of a sum. Where pandas
  versions differ on a text column (the Month column), the model follows pandas 2.
\<close>

subsection \<open>Values, errors and the table\<close>

datatype error = KeyError | IndexError | TypeError | ValueError

datatype float64 = Finite real | PosInf | NegInf | NaN

definition int64 :: "int \<Rightarrow> bool" where
  "int64 i \<longleftrightarrow> - (2 ^ 63) \<le> i \<and> i < 2 ^ 63"

definition wrap64 :: "int \<Rightarrow> int" where
  "wrap64 i = (i + 2 ^ 63) mod 2 ^ 64 - 2 ^ 63"

datatype val = IntV int | StrV string

datatype series = Ints "int list" | Text "string list"

record row =
  Month :: string
  Sales :: int
  Expenses :: int
  Customers :: int

type_synonym dataframe = "row list"

text \<open>
  \<open>pd.DataFrame({...})\<close> builds the table from its columns; row \<open>i\<close> takes the
  \<open>i\<close>-th entry of each. The four columns of \<open>load_data\<close> have twelve entries each.
\<close>

fun DataFrame :: "string list \<Rightarrow> int list \<Rightarrow> int list \<Rightarrow> int list \<Rightarrow> dataframe" where
  "DataFrame (m # ms) (s # ss) (e # es) (c # cs) =
     \<lparr>Month = m, Sales = s, Expenses = e, Customers = c\<rparr> # DataFrame ms ss es cs"
| "DataFrame _ _ _ _ = []"

definition load_data :: dataframe where
  "load_data = DataFrame
     [''Jan'', ''Feb'', ''Mar'', ''Apr'', ''May'', ''Jun'',
      ''Jul'', ''Aug'', ''Sep'', ''Oct'', ''Nov'', ''Dec'']
     [1000, 1200, 900, 1500, 1800, 1700, 1600, 2000, 2200, 1900, 2100, 2500]
     [800, 850, 750, 950, 1000, 1100, 1200, 1300, 1400, 1200, 1100, 1000]
     [100, 120, 115, 130, 140, 150, 160, 170, 180, 175, 165, 190]"

subsection \<open>The pandas operations the code uses\<close>

text \<open>The numeric columns of the table, by name.\<close>

definition numeric_columns :: "(string \<times> (row \<Rightarrow> int)) list" where
  "numeric_columns = [(''Sales'', Sales), (''Expenses'', Expenses), (''Customers'', Customers)]"

text \<open>\<open>df[name]\<close>: the column of that name, KeyError when the table has none.\<close>

definition getitem :: "dataframe \<Rightarrow> string \<Rightarrow> error + series" where
  "getitem df name =
     (if name = ''Month'' then Inr (Text (map Month df))
      else case map_of numeric_columns name of
             Some f \<Rightarrow> Inr (Ints (map f df))
           | None \<Rightarrow> Inl KeyError)"

text \<open>
  \<open>df.iloc[start:stop]\<close>: Python slice semantics. A negative bound counts from the
  end, every bound is clipped to the table, and nothing is raised.
\<close>

definition slice_bound :: "nat \<Rightarrow> int \<Rightarrow> nat" where
  "slice_bound n i = (if i < 0 then nat (max (int n + i) 0) else min (nat i) n)"

definition iloc_slice :: "'a list \<Rightarrow> int \<Rightarrow> int \<Rightarrow> 'a list" where
  "iloc_slice xs start stop =
     (let lo = slice_bound (length xs) start;
          hi = slice_bound (length xs) stop
      in take (hi - lo) (drop lo xs))"

text \<open>
  \<open>s.iloc[i]\<close> for one position: a negative position counts from the end, and a
  position outside the column raises IndexError.
\<close>

definition position :: "nat \<Rightarrow> int \<Rightarrow> error + nat" where
  "position n i =
     (if 0 \<le> i \<and> i < int n then Inr (nat i)
      else if i < 0 \<and> - int n \<le> i then Inr (nat (int n + i))
      else Inl IndexError)"

fun iloc :: "series \<Rightarrow> int \<Rightarrow> error + val" where
  "iloc (Ints xs) i =
     (case position (length xs) i of Inl e \<Rightarrow> Inl e | Inr k \<Rightarrow> Inr (IntV (xs ! k)))"
| "iloc (Text ss) i =
     (case position (length ss) i of Inl e \<Rightarrow> Inl e | Inr k \<Rightarrow> Inr (StrV (ss ! k)))"

text \<open>
  \<open>s.sum()\<close> adds the entries, in 64-bit integers for a numeric column; on a text
  column it concatenates them, and the sum of an empty column is \<open>0\<close> (in pandas 2;
  pandas 3 gives the empty string for an empty text column).
\<close>

fun series_sum :: "series \<Rightarrow> val" where
  "series_sum (Ints xs) = IntV (wrap64 (sum_list xs))"
| "series_sum (Text ss) = (if ss = [] then IntV 0 else StrV (concat ss))"

text \<open>
  \<open>s.mean()\<close>: the sum divided by the number of entries, NaN for an empty column.
  pandas takes this sum in floating point, so it does not wrap. A non-empty text column
  cannot be averaged: TypeError. An empty text column gives NaN in pandas 2 and
  TypeError in pandas 3; the model has NaN, and no property below depends on which.
  (The Month column is the only text column, and no selectable metric names it.)
\<close>

definition mean :: "int list \<Rightarrow> float64" where
  "mean xs = (if xs = [] then NaN else Finite (real_of_int (sum_list xs) / real (length xs)))"

fun series_mean :: "series \<Rightarrow> error + float64" where
  "series_mean (Ints xs) = Inr (mean xs)"
| "series_mean (Text ss) = (if ss = [] then Inr NaN else Inl TypeError)"

text \<open>
  Multiplying a float by a number: NaN stays NaN, and an infinity keeps or changes its
  sign with the sign of the number.
\<close>

fun float_times :: "float64 \<Rightarrow> real \<Rightarrow> float64" where
  "float_times (Finite a) k = Finite (a * k)"
| "float_times PosInf k = (if k = 0 then NaN else if 0 < k then PosInf else NegInf)"
| "float_times NegInf k = (if k = 0 then NaN else if 0 < k then NegInf else PosInf)"
| "float_times NaN k = NaN"

text \<open>
  \<open>a / b\<close> on two entries of a numeric column is numpy's true division: a float, and
  for a zero divisor an infinity or NaN instead of an exception.
\<close>

definition true_divide :: "int \<Rightarrow> int \<Rightarrow> float64" where
  "true_divide a b =
     (if b \<noteq> 0 then Finite (real_of_int a / real_of_int b)
      else if a = 0 then NaN
      else if 0 < a then PosInf else NegInf)"

subsection \<open>calculate_metrics\<close>

text \<open>
  Line 53, \<open>((last - first) / first) * 100 if first > 0 else 0\<close>. The subtraction is
  one of 64-bit integers and wraps, the division is \<open>true_divide\<close>, and the \<open>0\<close> of
  the else branch is the number zero. Comparing a string with \<open>0\<close> raises TypeError.
\<close>

fun growth_percent :: "val \<Rightarrow> val \<Rightarrow> error + float64" where
  "growth_percent (IntV first_v) (IntV last_v) =
     Inr (if first_v > 0
          then float_times (true_divide (wrap64 (last_v - first_v)) first_v) 100
          else Finite 0)"
| "growth_percent _ _ = Inl TypeError"

definition calculate_metrics :: "dataframe \<Rightarrow> string \<Rightarrow> error + (val \<times> float64 \<times> float64)" where
  "calculate_metrics df metric =
     (case getitem df metric of
        Inl e \<Rightarrow> Inl e
      | Inr col \<Rightarrow>
          (let total = series_sum col in
           case series_mean col of
             Inl e \<Rightarrow> Inl e
           | Inr avg \<Rightarrow>
               (case iloc col 0 of
                  Inl e \<Rightarrow> Inl e
                | Inr first_v \<Rightarrow>
                    (case iloc col (- 1) of
                       Inl e \<Rightarrow> Inl e
                     | Inr last_v \<Rightarrow>
                         (case growth_percent first_v last_v of
                            Inl e \<Rightarrow> Inl e
                          | Inr growth \<Rightarrow> Inr (total, avg, growth))))))"

subsection \<open>The chart builders\<close>

text \<open>
  A chart is described by what plotly is given: the data bound to the two axes, the
  title, the axis titles, and the options. \<open>px.line\<close> draws one point per row and
  raises ValueError for a column the table does not have; \<open>px.bar\<close> draws one bar per
  entry. Both label the axes with the names of the columns bound to them.
\<close>

record line_figure =
  line_x :: "string list"
  line_y :: series
  line_markers :: bool
  line_title :: string
  line_xaxis_title :: string
  line_yaxis_title :: string
  line_template :: string

record bar_figure =
  bar_x :: "string list"
  bar_y :: "float64 list"
  bar_title :: string
  bar_color :: string
  bar_xaxis_title :: string
  bar_yaxis_title :: string
  bar_template :: string

definition update_line_chart :: "dataframe \<Rightarrow> string \<Rightarrow> error + line_figure" where
  "update_line_chart df metric =
     (case getitem df metric of
        Inl e \<Rightarrow> Inl ValueError
      | Inr col \<Rightarrow>
          Inr \<lparr>line_x = map Month df,
               line_y = col,
               line_markers = True,
               line_title = ''Monthly '' @ metric,
               line_xaxis_title = ''Month'',
               line_yaxis_title = metric,
               line_template = ''plotly_white''\<rparr>)"

definition update_bar_chart :: "dataframe \<Rightarrow> bar_figure" where
  "update_bar_chart df =
     \<lparr>bar_x = [''Sales'', ''Expenses'', ''Customers''],
      bar_y = [mean (map Sales df),
               mean (map Expenses df),
               float_times (mean (map Customers df)) 10],
      bar_title = ''Average Metrics'',
      bar_color = ''Metric'',
      bar_xaxis_title = ''Metric'',
      bar_yaxis_title = ''Average'',
      bar_template = ''plotly_white''\<rparr>"

subsection \<open>main\<close>

text \<open>
  The part of \<open>main\<close> that computes: the widgets' values are its parameters, and its
  result is what it hands to the display (the formatting of the numbers and the page
  layout are left out). The select box offers \<open>metric_options\<close>.
\<close>

definition metric_options :: "string list" where
  "metric_options = [''Sales'', ''Expenses'', ''Customers'']"

record dashboard =
  total :: val
  avg :: float64
  growth :: float64
  line_fig :: line_figure
  bar_fig :: bar_figure


section \<open>Properties\<close>

subsection \<open>64-bit integers\<close>

lemma wrap64_id: "int64 i \<Longrightarrow> wrap64 i = i"
  by (simp add: int64_def wrap64_def)

lemma wrap64_range: "int64 (wrap64 i)"
proof -
  have "0 \<le> (i + 2 ^ 63) mod (2 ^ 64 :: int)" and "(i + 2 ^ 63) mod (2 ^ 64 :: int) < 2 ^ 64"
    by simp_all
  then show ?thesis by (simp add: int64_def wrap64_def)
qed

lemma nonneg_difference_int64:
  "int64 a \<Longrightarrow> int64 b \<Longrightarrow> 0 \<le> a \<Longrightarrow> 0 \<le> b \<Longrightarrow> int64 (b - a)"
  by (simp add: int64_def)

text \<open>
  Outside that range the code's arithmetic wraps, and so does the model's: a sum of
  \<open>2 ^ 62 + 2 ^ 62\<close> is negative, and a fall from \<open>1\<close> to \<open>- (2 ^ 63)\<close> is
  reported as a growth.
\<close>

lemma series_sum_wraps: "series_sum (Ints [2 ^ 62, 2 ^ 62]) = IntV (- (2 ^ 63))"
  by (simp add: wrap64_def)

lemma growth_percent_wraps:
  "growth_percent (IntV 1) (IntV (- (2 ^ 63))) = Inr (Finite 922337203685477580700)"
  by (simp add: wrap64_def true_divide_def)

subsection \<open>Column lookup, positions and slices\<close>

lemma getitem_numeric:
  "(m, f) \<in> set numeric_columns \<Longrightarrow> getitem df m = Inr (Ints (map f df))"
  by (auto simp: numeric_columns_def getitem_def)

lemma options_columns:
  "m \<in> set metric_options \<Longrightarrow> \<exists>f. (m, f) \<in> set numeric_columns"
  by (auto simp: numeric_columns_def metric_options_def)

lemma iloc_first: "xs \<noteq> [] \<Longrightarrow> iloc (Ints xs) 0 = Inr (IntV (hd xs))"
  by (simp add: position_def hd_conv_nth)

lemma iloc_last: "xs \<noteq> [] \<Longrightarrow> iloc (Ints xs) (- 1) = Inr (IntV (last xs))"
proof -
  assume ne: "xs \<noteq> []"
  then have len: "0 < length xs" by simp
  then have "position (length xs) (- 1) = Inr (length xs - 1)"
    by (cases xs) (auto simp: position_def)
  with ne show ?thesis by (simp add: last_conv_nth)
qed








lemma full_view: "iloc_slice load_data 0 (11 + 1) = load_data"
  by (simp add: iloc_slice_def slice_bound_def load_data_def)

lemma length_load_data: "length load_data = 12"
  by (simp add: load_data_def)

subsection \<open>What the functions return on a numeric column\<close>

lemma calculate_metrics_numeric:
  assumes col: "(m, f) \<in> set numeric_columns" and ne: "df \<noteq> []"
  shows "calculate_metrics df m =
           Inr (IntV (wrap64 (sum_list (map f df))),
                Finite (real_of_int (sum_list (map f df)) / real (length df)),
                if 0 < f (hd df)
                then float_times
                       (true_divide (wrap64 (f (last df) - f (hd df))) (f (hd df))) 100
                else Finite 0)"
proof -
  from ne have ne': "map f df \<noteq> []" by simp
  show ?thesis
    unfolding calculate_metrics_def getitem_numeric [OF col]
    using ne by (simp add: iloc_first [OF ne'] iloc_last [OF ne'] mean_def hd_map last_map
        del: iloc.simps)
qed

lemma calculate_metrics_returns:
  assumes "(m, f) \<in> set numeric_columns" and "df \<noteq> []"
  shows "\<exists>r. calculate_metrics df m = Inr r"
  by (simp add: calculate_metrics_numeric [OF assms])

lemma calculate_metrics_empty:
  "(m, f) \<in> set numeric_columns \<Longrightarrow> calculate_metrics [] m = Inl IndexError"
  unfolding calculate_metrics_def
  by (simp add: getitem_numeric mean_def position_def)

lemma load_data_sums:
  "(m, f) \<in> set numeric_columns \<Longrightarrow> int64 (sum_list (map f load_data))"
  by (auto simp: numeric_columns_def load_data_def int64_def)

lemma update_line_chart_numeric:
  "(m, f) \<in> set numeric_columns \<Longrightarrow>
   update_line_chart df m =
     Inr \<lparr>line_x = map Month df, line_y = Ints (map f df), line_markers = True,
          line_title = ''Monthly '' @ m, line_xaxis_title = ''Month'',
          line_yaxis_title = m, line_template = ''plotly_white''\<rparr>"
  by (simp add: update_line_chart_def getitem_numeric)






subsection \<open>The metrics tuple\<close>

text \<open>
  C1. For a non-empty view and a selected metric, \<open>calculate_metrics\<close> returns a finite
  growth: \<open>(last - first) / first * 100\<close> when the first row's value \<open>first\<close> is
  positive, and \<open>0\<close> when \<open>first \<le> 0\<close>, where \<open>last\<close> is the last row's value. With
  \<open>first = 0\<close> the growth is \<open>0\<close>, not NaN and not an infinity. The entries are 64-bit
  integers, and the difference \<open>last - first\<close> is taken to be one too, as it is
  whenever neither value is negative.
\<close>

theorem calculate_metrics_growth:
  assumes "(metric, f) \<in> set numeric_columns" and "df \<noteq> []"
    and "int64 (f (last df) - f (hd df))"
  shows "\<exists>t a g. calculate_metrics df metric = Inr (t, a, Finite g) \<and>
           (0 < f (hd df) \<longrightarrow>
              g = real_of_int (f (last df) - f (hd df)) / real_of_int (f (hd df)) * 100) \<and>
           (f (hd df) \<le> 0 \<longrightarrow> g = 0)"
  using calculate_metrics_numeric [OF assms(1,2)] wrap64_id [OF assms(3)]
  by (auto simp: true_divide_def)

theorem calculate_metrics_growth_witness:
  "(''Sales'', Sales) \<in> set numeric_columns \<and>
   [\<lparr>Month = ''Jan'', Sales = 0, Expenses = 5, Customers = 1\<rparr>,
    \<lparr>Month = ''Feb'', Sales = 40, Expenses = 6, Customers = 2\<rparr>] \<noteq> [] \<and>
   int64 (40 - 0) \<and> int64 (6 - 5) \<and>
   calculate_metrics
     [\<lparr>Month = ''Jan'', Sales = 0, Expenses = 5, Customers = 1\<rparr>,
      \<lparr>Month = ''Feb'', Sales = 40, Expenses = 6, Customers = 2\<rparr>] ''Sales''
     = Inr (IntV 40, Finite 20, Finite 0) \<and>
   calculate_metrics
     [\<lparr>Month = ''Jan'', Sales = 0, Expenses = 5, Customers = 1\<rparr>,
      \<lparr>Month = ''Feb'', Sales = 40, Expenses = 6, Customers = 2\<rparr>] ''Expenses''
     = Inr (IntV 11, Finite 5.5, Finite 20)"
  using calculate_metrics_growth [of "''Sales''" Sales
      "[\<lparr>Month = ''Jan'', Sales = 0, Expenses = 5, Customers = 1\<rparr>,
        \<lparr>Month = ''Feb'', Sales = 40, Expenses = 6, Customers = 2\<rparr>]"]
    calculate_metrics_growth [of "''Expenses''" Expenses
      "[\<lparr>Month = ''Jan'', Sales = 0, Expenses = 5, Customers = 1\<rparr>,
        \<lparr>Month = ''Feb'', Sales = 40, Expenses = 6, Customers = 2\<rparr>]"]
  by (simp add: numeric_columns_def calculate_metrics_def getitem_def mean_def position_def
      int64_def wrap64_def true_divide_def)

text \<open>
  C4. On the full-year view (the slider at 0 and 11) with metric Sales, the total is
  20400, the average 1700 and the growth 150.
\<close>

theorem full_year_sales:
  "calculate_metrics (iloc_slice load_data 0 (11 + 1)) ''Sales'' =
     Inr (IntV 20400, Finite 1700, Finite 150)"
  by (simp add: iloc_slice_def slice_bound_def load_data_def calculate_metrics_def getitem_def
      numeric_columns_def mean_def position_def wrap64_def true_divide_def)

text \<open>
  C5. On the view of January to March (the slider at 0 and 2) with metric Expenses, the
  total is 2400, the average 800 and the growth -6.25.
\<close>

theorem first_quarter_expenses:
  "calculate_metrics (iloc_slice load_data 0 (2 + 1)) ''Expenses'' =
     Inr (IntV 2400, Finite 800, Finite (- 6.25))"
  by (simp add: iloc_slice_def slice_bound_def load_data_def calculate_metrics_def getitem_def
      numeric_columns_def mean_def position_def wrap64_def true_divide_def)

text \<open>
  C8. On a view of exactly one row, for every selected metric, the growth returned by
  \<open>calculate_metrics\<close> is \<open>0\<close>.
\<close>

theorem single_row_growth:
  assumes "(metric, f) \<in> set numeric_columns" and "length df = 1"
  shows "\<exists>t a. calculate_metrics df metric = Inr (t, a, Finite 0)"
proof -
  from assms(2) obtain r where df: "df = [r]"
    by (cases df) auto
  show ?thesis
    using calculate_metrics_numeric [OF assms(1), of df]
    by (simp add: df wrap64_def true_divide_def)
qed

theorem single_row_growth_witness:
  "(''Customers'', Customers) \<in> set numeric_columns \<and>
   length (iloc_slice load_data 7 (7 + 1)) = 1 \<and>
   calculate_metrics (iloc_slice load_data 7 (7 + 1)) ''Customers''
     = Inr (IntV 170, Finite 170, Finite 0)"
  using single_row_growth [of "''Customers''" Customers "iloc_slice load_data 7 (7 + 1)"]
  by (simp add: iloc_slice_def slice_bound_def load_data_def calculate_metrics_def getitem_def
      numeric_columns_def mean_def position_def wrap64_def true_divide_def)

text \<open>
  C9. On the full-range view, which has twelve rows, the average returned for each of
  the three metrics is the returned total divided by 12.
\<close>

theorem full_range_average:
  assumes "metric \<in> set metric_options"
  shows "length (iloc_slice load_data 0 (11 + 1)) = 12 \<and>
         (\<exists>t g. calculate_metrics (iloc_slice load_data 0 (11 + 1)) metric
                  = Inr (IntV t, Finite (real_of_int t / 12), g))"
proof -
  have ne: "load_data \<noteq> []" using length_load_data by auto
  from assms obtain f where col: "(metric, f) \<in> set numeric_columns"
    using options_columns by blast
  from calculate_metrics_numeric [OF col ne] show ?thesis
    unfolding full_view by (simp add: length_load_data wrap64_id [OF load_data_sums [OF col]])
qed

theorem full_range_average_witness:
  "''Customers'' \<in> set metric_options \<and>
   calculate_metrics (iloc_slice load_data 0 (11 + 1)) ''Customers''
     = Inr (IntV 1795, Finite (1795 / 12), Finite 90)"
  using full_range_average [of "''Customers''"]
  by (simp add: metric_options_def iloc_slice_def slice_bound_def load_data_def calculate_metrics_def getitem_def
      numeric_columns_def mean_def position_def wrap64_def true_divide_def)

text \<open>
  C10. On an empty view \<open>calculate_metrics\<close> returns no metrics tuple: reading the first
  row raises IndexError. On every non-empty view it returns one.
\<close>

theorem empty_view_fails:
  assumes "metric \<in> set metric_options"
  shows "calculate_metrics [] metric = Inl IndexError \<and>
         (df \<noteq> [] \<longrightarrow> (\<exists>r. calculate_metrics df metric = Inr r))"
proof -
  from assms obtain f where col: "(metric, f) \<in> set numeric_columns"
    using options_columns by blast
  show ?thesis
    using calculate_metrics_empty [OF col] calculate_metrics_returns [OF col, of df] by simp
qed

theorem empty_view_fails_witness:
  "''Sales'' \<in> set metric_options \<and>
   calculate_metrics (iloc_slice load_data 4 (3 + 1)) ''Sales'' = Inl IndexError \<and>
   iloc_slice load_data 4 (3 + 1) = [] \<and>
   iloc_slice load_data 4 (4 + 1) \<noteq> [] \<and>
   calculate_metrics (iloc_slice load_data 4 (4 + 1)) ''Sales''
     = Inr (IntV 1800, Finite 1800, Finite 0)"
  using empty_view_fails [of "''Sales''" "iloc_slice load_data 4 (4 + 1)"]
  by (simp add: metric_options_def iloc_slice_def slice_bound_def load_data_def calculate_metrics_def getitem_def
      numeric_columns_def mean_def position_def wrap64_def true_divide_def)

subsection \<open>The charts\<close>

text \<open>
  C6. For every view and selected metric the line chart has one point per row, in the
  order of the view: point \<open>i\<close> has the month of row \<open>i\<close> on the x-axis and the metric
  value of row \<open>i\<close> on the y-axis. Its title is "Monthly " followed by the metric, and
  its axes are labelled "Month" and with the metric's name.
\<close>

theorem line_chart_points:
  assumes "(metric, f) \<in> set numeric_columns"
  shows "\<exists>fig ys. update_line_chart df metric = Inr fig \<and> line_y fig = Ints ys \<and>
           length (line_x fig) = length df \<and> length ys = length df \<and>
           (\<forall>i < length df. line_x fig ! i = Month (df ! i) \<and> ys ! i = f (df ! i)) \<and>
           line_title fig = ''Monthly '' @ metric \<and>
           line_xaxis_title fig = ''Month'' \<and> line_yaxis_title fig = metric \<and>
           line_markers fig"
  by (simp add: update_line_chart_numeric [OF assms])

theorem line_chart_points_witness:
  "(''Expenses'', Expenses) \<in> set numeric_columns \<and>
   update_line_chart (iloc_slice load_data 0 (2 + 1)) ''Expenses'' =
     Inr \<lparr>line_x = [''Jan'', ''Feb'', ''Mar''], line_y = Ints [800, 850, 750],
          line_markers = True, line_title = ''Monthly Expenses'',
          line_xaxis_title = ''Month'', line_yaxis_title = ''Expenses'',
          line_template = ''plotly_white''\<rparr>"
  using line_chart_points [of "''Expenses''" Expenses "iloc_slice load_data 0 (2 + 1)"]
  by (simp add: numeric_columns_def update_line_chart_def getitem_def
      iloc_slice_def slice_bound_def load_data_def)

text \<open>
  C7. For every view the bar chart has the three bars Sales, Expenses and Customers and
  the title "Average Metrics". On a non-empty view their values are the mean of Sales,
  the mean of Expenses, and ten times the mean of Customers; on an empty view pandas'
  mean is NaN, and so is each bar.
\<close>

theorem bar_chart_averages:
  "bar_x (update_bar_chart df) = [''Sales'', ''Expenses'', ''Customers''] \<and>
   bar_title (update_bar_chart df) = ''Average Metrics'' \<and>
   (df \<noteq> [] \<longrightarrow>
      bar_y (update_bar_chart df) =
        [Finite (real_of_int (sum_list (map Sales df)) / real (length df)),
         Finite (real_of_int (sum_list (map Expenses df)) / real (length df)),
         Finite (10 * (real_of_int (sum_list (map Customers df)) / real (length df)))]) \<and>
   (df = [] \<longrightarrow> bar_y (update_bar_chart df) = [NaN, NaN, NaN])"
  by (simp add: update_bar_chart_def mean_def)

theorem bar_chart_averages_witness:
  "iloc_slice load_data 0 (2 + 1) \<noteq> [] \<and>
   bar_y (update_bar_chart (iloc_slice load_data 0 (2 + 1))) =
     [Finite (3100 / 3), Finite 800, Finite (10 * (335 / 3))] \<and>
   bar_y (update_bar_chart []) = [NaN, NaN, NaN]"
  using bar_chart_averages [of "iloc_slice load_data 0 (2 + 1)"] bar_chart_averages [of "[]"]
  by (simp add: iloc_slice_def slice_bound_def load_data_def)

text \<open>
  C2, as the code has it. On the full-year view the Sales bar is 1700, the Expenses bar
  is 12650 / 12, about 1054.17, and the Customers bar is 1795 / 12 * 10, that is
  149.5833 * 10, about 1495.833.
\<close>

theorem full_year_bar_chart:
  "bar_x (update_bar_chart (iloc_slice load_data 0 (11 + 1))) =
     [''Sales'', ''Expenses'', ''Customers''] \<and>
   bar_y (update_bar_chart (iloc_slice load_data 0 (11 + 1))) =
     [Finite 1700, Finite (12650 / 12), Finite (1795 / 12 * 10)] \<and>
   \<bar>12650 / 12 - 1054.17\<bar> < (0.005 :: real) \<and>
   \<bar>1795 / 12 - 149.5833\<bar> < (0.00005 :: real) \<and>
   \<bar>1795 / 12 * 10 - 1495.833\<bar> < (0.0005 :: real)"
  by (simp add: update_bar_chart_def mean_def iloc_slice_def slice_bound_def load_data_def)

text \<open>
  C2, as stated, fails on the full-year view: the Expenses bar is more than 49 away
  from 1004.17 and the Customers bar more than 8 away from 1504.167.
\<close>

theorem full_year_bar_chart_counterexample:
  "map_of (zip (bar_x (update_bar_chart (iloc_slice load_data 0 (11 + 1))))
               (bar_y (update_bar_chart (iloc_slice load_data 0 (11 + 1))))) ''Expenses''
     = Some (Finite (12650 / 12)) \<and>
   49 < \<bar>12650 / 12 - (1004.17 :: real)\<bar> \<and>
   map_of (zip (bar_x (update_bar_chart (iloc_slice load_data 0 (11 + 1))))
               (bar_y (update_bar_chart (iloc_slice load_data 0 (11 + 1))))) ''Customers''
     = Some (Finite (1795 / 12 * 10)) \<and>
   8 < \<bar>1795 / 12 * 10 - (1504.167 :: real)\<bar>"
  by (simp add: update_bar_chart_def mean_def iloc_slice_def slice_bound_def load_data_def)

subsection \<open>Inputs outside the widgets' ranges\<close>




end
